theory Spec2Isabelle
  imports Main "HOL-Library.Word"
begin

unbundle bit_operations_syntax

section \<open>Data model of the mDNS responder (server.go)\<close>

subsection \<open>DNS messages (types of the external DNS library, as server.go uses them)\<close>

text \<open>
  Modelled from the spec: the declaration of \<open>dns.Question\<close> lives in the external
  DNS library and is not part of the sources. Section 3 of the spec gives it a name, a
  record type and a record class whose top bit is the unicast-response-preferred flag.
  server.go reads only \<open>Qclass\<close>, a \<open>uint16\<close>; the other two fields travel with it
  to the Zone.
\<close>

record Question =
  Name :: string
  Qtype :: "16 word"
  Qclass :: "16 word"

text \<open>
  Modelled from the spec: the declaration of the message type \<open>dns.Msg\<close> lives in the
  external DNS library and is not part of the sources. The fields are those that
  server.go sets or reads (\<open>Id\<close>, \<open>Response\<close>, \<open>Opcode\<close>, \<open>Authoritative\<close>,
  \<open>Truncated\<close>, \<open>Rcode\<close>, \<open>Compress\<close>, \<open>Question\<close>, \<open>Answer\<close>) and those its
  comments 18.5 to 18.11 list as left at zero (RD, RA, Z, AD, CD), which section 3 of
  the spec names "recursion-desired, recursion-available, all reserved bits". The
  embedded header struct is flattened into the message, as the promoted field accesses
  \<open>query.Opcode\<close>, \<open>query.Id\<close> of the source read it. A field that a struct literal
  of the source leaves out holds Go's zero value: \<open>False\<close>, \<open>0\<close>, the empty list.
  Resource records are opaque to server.go: the type parameter \<open>'rr\<close>.
\<close>

record 'rr Msg =
  Id_hdr :: "16 word"
  Response :: bool
  Opcode :: int
  Authoritative :: bool
  Truncated :: bool
  RecursionDesired :: bool
  RecursionAvailable :: bool
  Zero :: bool
  AuthenticatedData :: bool
  CheckingDisabled :: bool
  Rcode :: int
  Compress :: bool
  Question :: "Question list"
  Answer :: "'rr list"
  Ns :: "'rr list"
  Extra :: "'rr list"

definition OpcodeQuery :: int where
  "OpcodeQuery = 0"

subsection \<open>Configuration and server state\<close>

text \<open>
  Modelled from the spec: the declaration of the interface \<open>Zone\<close> is not part of the
  sources. Section 6 of the spec gives it two operations, \<open>Records\<close> from a question
  to a sequence of records and \<open>Announcement\<close> to the sequence of records to announce,
  and server.go calls exactly these two. A Zone value is modelled as the two functions
  it provides.
\<close>

record 'rr Zone =
  Records :: "Question \<Rightarrow> 'rr list"
  Announcement :: "'rr list"

record 'rr Config =
  Zone :: "'rr Zone"
  Iface :: "string option"
  DisableMulticastLoopback :: bool

text \<open>A socket (\<open>*net.UDPConn\<close>) is a handle; \<open>None\<close> is the nil pointer.\<close>

type_synonym conn = nat

text \<open>
  The shutdown channel: a Go channel is nil, open or closed, and \<open>close\<close> panics on
  the first and the last.
\<close>

datatype chan = ChanNil | ChanOpen | ChanClosed

text \<open>
  The mutex \<open>shutdownLock\<close> is not a field of the model: calls are sequential here, so
  locking on entry and unlocking on return change nothing.
\<close>

record 'rr Server =
  config :: "'rr Config"
  ipv4List :: "conn option"
  ipv6List :: "conn option"
  shutdown :: bool
  shutdownCh :: chan

subsection \<open>Addresses\<close>

text \<open>
  \<open>net.UDPAddr\<close>: the IP is a byte slice (4 bytes, or 16 bytes), with a port. A
  \<open>net.Addr\<close> is an interface value: a UDP address or something else, and the type
  assertion \<open>from.(*net.UDPAddr)\<close> panics on anything else.
\<close>

record udp_addr =
  IP :: "8 word list"
  Port :: int

datatype net_addr = UDPAddr udp_addr | OtherAddr

text \<open>
  \<open>IP.To4\<close> of Go's standard library: a 4-byte address is an IPv4 address, and so is
  a 16-byte address of the form \<open>::ffff:a.b.c.d\<close>; \<open>None\<close> is its nil result.
\<close>

definition To4 :: "8 word list \<Rightarrow> 8 word list option" where
  "To4 ip =
     (if length ip = 4 then Some ip
      else if length ip = 16 \<and> take 10 ip = replicate 10 0 \<and> ip ! 10 = 255 \<and> ip ! 11 = 255
      then Some (drop 12 ip)
      else None)"

definition mdnsPort :: int where
  "mdnsPort = 5353"

definition forceUnicastResponses :: bool where
  "forceUnicastResponses = False"

text \<open>
  \<open>net.ParseIP\<close> returns the 16-byte form of an address: \<open>224.0.0.251\<close> as
  \<open>::ffff:224.0.0.251\<close>, and \<open>ff02::fb\<close> as it is.
\<close>

definition ipv4Addr :: udp_addr where
  "ipv4Addr = \<lparr>IP = [0, 0, 0, 0, 0, 0, 0, 0, 0, 0, 255, 255, 224, 0, 0, 251], Port = mdnsPort\<rparr>"

definition ipv6Addr :: udp_addr where
  "ipv6Addr = \<lparr>IP = [255, 2, 0, 0, 0, 0, 0, 0, 0, 0, 0, 0, 0, 0, 0, 251], Port = mdnsPort\<rparr>"

subsection \<open>Errors, panics and the observable trace\<close>

datatype error =
    ErrNonZeroOpcode int
  | ErrNonZeroRcode int
  | ErrTruncatedNotImplemented
  | ErrSendMulticast error
  | ErrSendUnicast error
  | ErrMissingConn
  | ErrNoListeners
  | ErrExternal string

datatype panic = CloseOfNilChannel | CloseOfClosedChannel | InterfaceConversion

text \<open>How a call ends: \<open>Returned None\<close> is Go's \<open>return nil\<close>.\<close>

datatype outcome = Returned "error option" | Panicked panic

text \<open>
  What the server does to its sockets, in the order it does it: a write attempt (whether
  or not the socket layer then reports an error) and a close.
\<close>

datatype event = EvWriteToUDP conn "8 word list" udp_addr | EvClose conn

text \<open>
  The external collaborators whose results the code branches on: the DNS codec
  (\<open>Msg.Pack\<close>) and the socket layer (\<open>UDPConn.WriteToUDP\<close>), whose error may depend
  on everything done so far.
\<close>

record 'rr env =
  Pack :: "'rr Msg \<Rightarrow> error + 8 word list"
  WriteToUDP :: "event list \<Rightarrow> conn \<Rightarrow> 8 word list \<Rightarrow> udp_addr \<Rightarrow> error option"

section \<open>The operations of server.go\<close>

subsection \<open>handleQuestion\<close>

definition handleQuestion :: "'rr Server \<Rightarrow> Question \<Rightarrow> 'rr list \<times> 'rr list" where
  "handleQuestion s q =
     (let records = Records (Zone (config s)) q in
      if length records = 0 then ([], [])
      else if (Qclass q AND push_bit 15 1) \<noteq> 0 \<or> forceUnicastResponses then ([], records)
      else (records, []))"

subsection \<open>handleQuery\<close>

text \<open>
  The loop over \<open>query.Question\<close>: the two accumulators start as nil slices and grow
  by \<open>append\<close>, in question order.
\<close>

fun collectAnswers :: "'rr Server \<Rightarrow> Question list \<Rightarrow> 'rr list \<Rightarrow> 'rr list \<Rightarrow> 'rr list \<times> 'rr list" where
  "collectAnswers s [] multicastAnswer unicastAnswer = (multicastAnswer, unicastAnswer)"
| "collectAnswers s (q # qs) multicastAnswer unicastAnswer =
     (case handleQuestion s q of
        (mrecs, urecs) \<Rightarrow> collectAnswers s qs (multicastAnswer @ mrecs) (unicastAnswer @ urecs))"

text \<open>The message literal that the closure \<open>resp\<close> of handleQuery returns.\<close>

definition resp_msg :: "16 word \<Rightarrow> 'rr list \<Rightarrow> 'rr Msg" where
  "resp_msg i answer =
     \<lparr>Id_hdr = i, Response = True, Opcode = OpcodeQuery, Authoritative = True,
      Truncated = False, RecursionDesired = False, RecursionAvailable = False,
      Zero = False, AuthenticatedData = False, CheckingDisabled = False,
      Rcode = 0, Compress = True, Question = [], Answer = answer, Ns = [], Extra = []\<rparr>"

text \<open>The closure \<open>resp\<close> of handleQuery; \<open>None\<close> is its nil result.\<close>

definition resp :: "'rr Msg \<Rightarrow> 'rr list \<Rightarrow> 'rr list \<Rightarrow> bool \<Rightarrow> 'rr Msg option" where
  "resp query unicastAnswer multicastAnswer unicast =
     (let id = (if unicast then Id_hdr query else 0);
          answer = (if unicast then unicastAnswer else multicastAnswer)
      in if length answer = 0 then None else Some (resp_msg id answer))"

text \<open>
  sendResponse. The global multicast addresses are never nil, and \<open>from\<close> is a
  non-nil pointer once the type assertion has passed, so the guard \<open>addr == nil\<close> of
  the source is never true and only the missing connection remains.
\<close>

definition sendResponse ::
  "'rr env \<Rightarrow> 'rr Server \<Rightarrow> 'rr Msg \<Rightarrow> net_addr \<Rightarrow> bool \<Rightarrow> event list \<Rightarrow> outcome \<times> event list" where
  "sendResponse e s rsp from unicast tr =
     (case Pack e rsp of
        Inl err \<Rightarrow> (Returned (Some err), tr)
      | Inr buf \<Rightarrow>
          (case from of
             OtherAddr \<Rightarrow> (Panicked InterfaceConversion, tr)
           | UDPAddr addr0 \<Rightarrow>
               (let conn = (if To4 (IP addr0) \<noteq> None then ipv4List s else ipv6List s);
                    addr = (if \<not> unicast
                            then (if To4 (IP addr0) \<noteq> None then ipv4Addr else ipv6Addr)
                            else addr0)
                in case conn of
                     None \<Rightarrow> (Returned (Some ErrMissingConn), tr)
                   | Some c \<Rightarrow>
                       (Returned (WriteToUDP e tr c buf addr), tr @ [EvWriteToUDP c buf addr]))))"

text \<open>The second \<open>if\<close> statement of handleQuery and its final \<open>return nil\<close>.\<close>

definition handleQuery_unicast ::
  "'rr env \<Rightarrow> 'rr Server \<Rightarrow> 'rr Msg option \<Rightarrow> net_addr \<Rightarrow> event list \<Rightarrow> outcome \<times> event list" where
  "handleQuery_unicast e s uresp from tr =
     (case uresp of
        None \<Rightarrow> (Returned None, tr)
      | Some u \<Rightarrow>
          (case sendResponse e s u from True tr of
             (Returned (Some err), tr') \<Rightarrow> (Returned (Some (ErrSendUnicast err)), tr')
           | (Returned None, tr') \<Rightarrow> (Returned None, tr')
           | (Panicked p, tr') \<Rightarrow> (Panicked p, tr')))"

definition handleQuery ::
  "'rr env \<Rightarrow> 'rr Server \<Rightarrow> 'rr Msg \<Rightarrow> net_addr \<Rightarrow> event list \<Rightarrow> outcome \<times> event list" where
  "handleQuery e s query from tr =
     (if Opcode query \<noteq> OpcodeQuery then (Returned (Some (ErrNonZeroOpcode (Opcode query))), tr)
      else if Rcode query \<noteq> 0 then (Returned (Some (ErrNonZeroRcode (Rcode query))), tr)
      else if Truncated query then (Returned (Some ErrTruncatedNotImplemented), tr)
      else
        (case collectAnswers s (Question query) [] [] of
           (multicastAnswer, unicastAnswer) \<Rightarrow>
             (case resp query unicastAnswer multicastAnswer False of
                None \<Rightarrow>
                  handleQuery_unicast e s (resp query unicastAnswer multicastAnswer True) from tr
              | Some mresp \<Rightarrow>
                  (case sendResponse e s mresp from False tr of
                     (Returned (Some err), tr') \<Rightarrow> (Returned (Some (ErrSendMulticast err)), tr')
                   | (Panicked p, tr') \<Rightarrow> (Panicked p, tr')
                   | (Returned None, tr') \<Rightarrow>
                       handleQuery_unicast e s
                         (resp query unicastAnswer multicastAnswer True) from tr'))))"

subsection \<open>announceOnce\<close>

text \<open>The message literal of announceOnce.\<close>

definition announceOnce_msg :: "'rr list \<Rightarrow> 'rr Msg" where
  "announceOnce_msg records =
     \<lparr>Id_hdr = 0, Response = True, Opcode = OpcodeQuery, Authoritative = True,
      Truncated = False, RecursionDesired = False, RecursionAvailable = False,
      Zero = False, AuthenticatedData = False, CheckingDisabled = False,
      Rcode = 0, Compress = True, Question = [], Answer = records, Ns = [], Extra = []\<rparr>"

definition announceOnce :: "'rr env \<Rightarrow> 'rr Server \<Rightarrow> event list \<Rightarrow> outcome \<times> event list" where
  "announceOnce e s tr =
     (let records = Announcement (Zone (config s)) in
      if length records = 0 then (Returned None, tr)
      else
        (case Pack e (announceOnce_msg records) of
           Inl err \<Rightarrow> (Returned (Some err), tr)
         | Inr buf \<Rightarrow>
             (case (case ipv4List s of
                      None \<Rightarrow> (None, tr)
                    | Some c4 \<Rightarrow>
                        (WriteToUDP e tr c4 buf ipv4Addr, tr @ [EvWriteToUDP c4 buf ipv4Addr])) of
                (Some err, tr') \<Rightarrow> (Returned (Some err), tr')
              | (None, tr') \<Rightarrow>
                  (case ipv6List s of
                     None \<Rightarrow> (Returned None, tr')
                   | Some c6 \<Rightarrow>
                       (Returned (WriteToUDP e tr' c6 buf ipv6Addr),
                        tr' @ [EvWriteToUDP c6 buf ipv6Addr])))))"

subsection \<open>NewServer and Shutdown\<close>

text \<open>
  NewServer, up to the construction of the server value. The results of the external
  calls are its parameters: \<open>l4\<close> and \<open>l6\<close> are what the two \<open>ListenMulticastUDP\<close>
  calls return (their errors are dropped by the source), \<open>loop4\<close> and \<open>loop6\<close> what
  the two \<open>SetMulticastLoopback\<close> calls return. The receiver goroutines and the
  announcement it then starts run concurrently and are not part of this function's
  result.
\<close>

definition NewServer ::
  "'rr Config \<Rightarrow> conn option \<Rightarrow> conn option \<Rightarrow> error option \<Rightarrow> error option \<Rightarrow> error + 'rr Server" where
  "NewServer cfg l4 l6 loop4 loop6 =
     (case loop4 of
        Some err \<Rightarrow> Inl err
      | None \<Rightarrow>
          (case loop6 of
             Some err \<Rightarrow> Inl err
           | None \<Rightarrow>
               if l4 = None \<and> l6 = None then Inl ErrNoListeners
               else Inr \<lparr>config = cfg, ipv4List = l4, ipv6List = l6,
                         shutdown = False, shutdownCh = ChanOpen\<rparr>))"

text \<open>
  Shutdown returns the outcome, the server after the call and the trace. The errors
  that \<open>Close\<close> returns are dropped by the source.
\<close>

definition Shutdown :: "'rr Server \<Rightarrow> event list \<Rightarrow> outcome \<times> 'rr Server \<times> event list" where
  "Shutdown s tr =
     (if shutdown s then (Returned None, s, tr)
      else
        (let s1 = s\<lparr>shutdown := True\<rparr> in
         case shutdownCh s1 of
           ChanNil \<Rightarrow> (Panicked CloseOfNilChannel, s1, tr)
         | ChanClosed \<Rightarrow> (Panicked CloseOfClosedChannel, s1, tr)
         | ChanOpen \<Rightarrow>
             (let s2 = s1\<lparr>shutdownCh := ChanClosed\<rparr>;
                  tr1 = (case ipv4List s2 of None \<Rightarrow> tr | Some c4 \<Rightarrow> tr @ [EvClose c4]);
                  tr2 = (case ipv6List s2 of None \<Rightarrow> tr1 | Some c6 \<Rightarrow> tr1 @ [EvClose c6])
              in (Returned None, s2, tr2))))"

text \<open>
  A client that calls Shutdown \<open>n\<close> times in a row, collecting what each call returns;
  a panic ends the run.
\<close>

fun Shutdown_times ::
  "nat \<Rightarrow> 'rr Server \<Rightarrow> event list \<Rightarrow> outcome list \<times> 'rr Server \<times> event list" where
  "Shutdown_times 0 s tr = ([], s, tr)"
| "Shutdown_times (Suc n) s tr =
     (case Shutdown s tr of
        (Panicked p, s', tr') \<Rightarrow> ([Panicked p], s', tr')
      | (Returned r, s', tr') \<Rightarrow>
          (case Shutdown_times n s' tr' of
             (rs, s'', tr'') \<Rightarrow> (Returned r # rs, s'', tr'')))"

section \<open>Example inputs\<close>

text \<open>
  Resource records are natural numbers in the examples. The first zone answers for one
  name and type and does not read the class; the second one reads the class as well and
  answers only for class IN; the third one has no records at all.
\<close>

definition ex_zone :: "nat Zone" where
  "ex_zone =
     \<lparr>Records = (\<lambda>q. if Name q = ''foo.local.'' \<and> Qtype q = 1 then [7]
                      else if Name q = ''bar.local.'' \<and> Qtype q = 1 then [8] else []),
      Announcement = [7, 8]\<rparr>"

definition ex_zone_in :: "nat Zone" where
  "ex_zone_in =
     \<lparr>Records = (\<lambda>q. if Name q = ''foo.local.'' \<and> Qtype q = 1 \<and> Qclass q = 1 then [7] else []),
      Announcement = [7]\<rparr>"

definition ex_zone_empty :: "nat Zone" where
  "ex_zone_empty = \<lparr>Records = (\<lambda>q. []), Announcement = []\<rparr>"

definition ex_server :: "nat Zone \<Rightarrow> conn option \<Rightarrow> conn option \<Rightarrow> nat Server" where
  "ex_server z l4 l6 =
     \<lparr>config = \<lparr>Zone = z, Iface = None, DisableMulticastLoopback = False\<rparr>,
      ipv4List = l4, ipv6List = l6, shutdown = False, shutdownCh = ChanOpen\<rparr>"

definition ex_question :: "string \<Rightarrow> 16 word \<Rightarrow> Question" where
  "ex_question n c = \<lparr>Name = n, Qtype = 1, Qclass = c\<rparr>"

definition ex_query :: "16 word \<Rightarrow> Question list \<Rightarrow> nat Msg" where
  "ex_query i qs =
     \<lparr>Id_hdr = i, Response = False, Opcode = 0, Authoritative = False,
      Truncated = False, RecursionDesired = False, RecursionAvailable = False,
      Zero = False, AuthenticatedData = False, CheckingDisabled = False,
      Rcode = 0, Compress = False, Question = qs, Answer = [], Ns = [], Extra = []\<rparr>"

text \<open>
  A codec that never fails; the encoding is the low byte of the id, then the answer list,
  one byte a record.
\<close>

definition ex_pack :: "nat Msg \<Rightarrow> error + 8 word list" where
  "ex_pack m = Inr (ucast (Id_hdr m) # map of_nat (Answer m))"

definition ex_env :: "nat env" where
  "ex_env = \<lparr>Pack = ex_pack, WriteToUDP = (\<lambda>tr c buf a. None)\<rparr>"

text \<open>A socket layer on which every write to a multicast group fails.\<close>

definition ex_env_multicast_fails :: "nat env" where
  "ex_env_multicast_fails =
     \<lparr>Pack = ex_pack,
      WriteToUDP = (\<lambda>tr c buf a. if a = ipv4Addr \<or> a = ipv6Addr
                                 then Some (ErrExternal ''network is unreachable'') else None)\<rparr>"

text \<open>A socket layer on which every write to the socket with handle 4 fails.\<close>

definition ex_env_v4_fails :: "nat env" where
  "ex_env_v4_fails =
     \<lparr>Pack = ex_pack,
      WriteToUDP = (\<lambda>tr c buf a. if c = 4
                                 then Some (ErrExternal ''network is unreachable'') else None)\<rparr>"

definition ex_from :: udp_addr where
  "ex_from = \<lparr>IP = [192, 168, 1, 5], Port = 5353\<rparr>"

text \<open>The question with the unicast-response bit cleared, as the spec's wording has it.\<close>

definition spec_strip_unicast_bit :: "Question \<Rightarrow> Question" where
  "spec_strip_unicast_bit q = q\<lparr>Qclass := Qclass q AND 32767\<rparr>"

section \<open>Properties of the question routing\<close>

lemma qu_bit: "((w :: 16 word) AND push_bit 15 1) \<noteq> 0 \<longleftrightarrow> bit w 15"
  by (metis and_exp_eq_0_iff_not_bit push_bit_of_1)

lemma To4_ipv4Addr: "To4 (IP ipv4Addr) \<noteq> None"
  by code_simp

lemma To4_ipv6Addr: "To4 (IP ipv6Addr) = None"
  by code_simp

lemma To4_ex_from: "To4 (IP ex_from) \<noteq> None"
  by (simp add: To4_def ex_from_def)

lemma handleQuestion_bit:
  "handleQuestion s q =
     (if bit (Qclass q) 15 then ([], Records (Zone (config s)) q)
      else (Records (Zone (config s)) q, []))"
  unfolding handleQuestion_def Let_def qu_bit forceUnicastResponses_def
  by simp

lemma collectAnswers_routing:
  "collectAnswers s qs ma ua =
     (ma @ concat (map (Records (Zone (config s))) (filter (\<lambda>q. \<not> bit (Qclass q) 15) qs)),
      ua @ concat (map (Records (Zone (config s))) (filter (\<lambda>q. bit (Qclass q) 15) qs)))"
  by (induction qs arbitrary: ma ua) (simp_all add: handleQuestion_bit)

text \<open>
  C1. The routing of a question is binary: when bit 15 of its class is set (or the
  global force-unicast constant is on) every record the Zone matched is in the unicast
  sequence and the multicast one is empty; when the bit is clear every matched record is
  in the multicast sequence and the unicast one is empty. One of the two sequences is
  always empty, so the answers of one question are never split. Over a whole query the
  multicast sequence is the Zone's records of the questions with the bit clear and the
  unicast sequence those of the questions with the bit set, both in question order.
\<close>

theorem handleQuestion_routing:
  "handleQuestion s q =
     (if bit (Qclass q) 15 \<or> forceUnicastResponses
      then ([], Records (Zone (config s)) q)
      else (Records (Zone (config s)) q, []))
   \<and> (fst (handleQuestion s q) = [] \<or> snd (handleQuestion s q) = [])
   \<and> collectAnswers s qs [] [] =
       (concat (map (Records (Zone (config s))) (filter (\<lambda>q. \<not> bit (Qclass q) 15) qs)),
        concat (map (Records (Zone (config s))) (filter (\<lambda>q. bit (Qclass q) 15) qs)))"
  by (simp add: handleQuestion_bit forceUnicastResponses_def collectAnswers_routing)

theorem handleQuestion_routing_witness:
  "handleQuestion (ex_server ex_zone (Some 4) (Some 6)) (ex_question ''foo.local.'' 32769) = ([], [7])
   \<and> handleQuestion (ex_server ex_zone (Some 4) (Some 6)) (ex_question ''foo.local.'' 1) = ([7], [])
   \<and> collectAnswers (ex_server ex_zone (Some 4) (Some 6))
        [ex_question ''foo.local.'' 32769, ex_question ''bar.local.'' 1, ex_question ''foo.local.'' 1]
        [] [] = ([8, 7], [7])"
proof -
  let ?s = "ex_server ex_zone (Some 4) (Some 6)"
  let ?qu = "ex_question ''foo.local.'' 32769"
  let ?qm = "ex_question ''foo.local.'' 1"
  let ?qs = "[?qu, ex_question ''bar.local.'' 1, ?qm]"
  note u = handleQuestion_routing [of ?s ?qu ?qs]
  note m = handleQuestion_routing [of ?s ?qm ?qs]
  have "handleQuestion ?s ?qu = ([], [7])"
    using u by (simp add: ex_server_def ex_zone_def ex_question_def)
  moreover have "handleQuestion ?s ?qm = ([7], [])"
    using m by (simp add: ex_server_def ex_zone_def ex_question_def forceUnicastResponses_def)
  moreover have "collectAnswers ?s ?qs [] [] = ([8, 7], [7])"
    unfolding u [THEN conjunct2, THEN conjunct2]
    by (simp add: ex_server_def ex_zone_def ex_question_def)
  ultimately show ?thesis by simp
qed

text \<open>
  C5, as the code has it. handleQuestion hands the question to the Zone exactly as it was
  received, the class field with bit 15 included: the records it returns, multicast and
  unicast together, are the Zone's records for the unchanged question, and a Zone enters
  the result only through its answer to the unchanged question. The bit is read
  afterwards, to route the records.
\<close>

theorem handleQuestion_passes_raw_question:
  "fst (handleQuestion s q) @ snd (handleQuestion s q) = Records (Zone (config s)) q
   \<and> (\<forall>z. Records z q = Records (Zone (config s)) q
        \<longrightarrow> handleQuestion (s\<lparr>config := (config s)\<lparr>Zone := z\<rparr>\<rparr>) q = handleQuestion s q)"
  by (simp add: handleQuestion_bit)

theorem handleQuestion_passes_raw_question_witness:
  "Records ex_zone_empty (ex_question ''foo.local.'' 32769)
     = Records (Zone (config (ex_server ex_zone_in (Some 4) (Some 6)))) (ex_question ''foo.local.'' 32769)
   \<and> handleQuestion ((ex_server ex_zone_in (Some 4) (Some 6))
        \<lparr>config := (config (ex_server ex_zone_in (Some 4) (Some 6)))\<lparr>Zone := ex_zone_empty\<rparr>\<rparr>)
        (ex_question ''foo.local.'' 32769)
     = handleQuestion (ex_server ex_zone_in (Some 4) (Some 6)) (ex_question ''foo.local.'' 32769)"
proof -
  let ?s = "ex_server ex_zone_in (Some 4) (Some 6)"
  let ?q = "ex_question ''foo.local.'' 32769"
  have h: "Records ex_zone_empty ?q = Records (Zone (config ?s)) ?q"
    by (simp add: ex_zone_empty_def ex_server_def ex_zone_in_def ex_question_def)
  from handleQuestion_passes_raw_question [of ?s ?q] h
  have "handleQuestion (?s\<lparr>config := (config ?s)\<lparr>Zone := ex_zone_empty\<rparr>\<rparr>) ?q = handleQuestion ?s ?q"
    by blast
  with h show ?thesis by simp
qed

text \<open>
  C5, as the spec words it, fails: a Zone that reads the class and holds a record of
  class IN matches the question with bit 15 cleared, and handleQuestion finds nothing
  for the question with the bit set, because the Zone was asked with class \<open>0x8001\<close>.
\<close>

theorem handleQuestion_flag_stripped_counterexample:
  "bit (Qclass (ex_question ''foo.local.'' 32769)) 15
   \<and> Qclass (spec_strip_unicast_bit (ex_question ''foo.local.'' 32769)) = 1
   \<and> Records ex_zone_in (spec_strip_unicast_bit (ex_question ''foo.local.'' 32769)) = [7]
   \<and> handleQuestion (ex_server ex_zone_in (Some 4) (Some 6)) (ex_question ''foo.local.'' 32769) = ([], [])
   \<and> fst (handleQuestion (ex_server ex_zone_in (Some 4) (Some 6)) (ex_question ''foo.local.'' 32769))
       @ snd (handleQuestion (ex_server ex_zone_in (Some 4) (Some 6)) (ex_question ''foo.local.'' 32769))
     \<noteq> Records ex_zone_in (spec_strip_unicast_bit (ex_question ''foo.local.'' 32769))"
  by (simp add: handleQuestion_bit ex_question_def spec_strip_unicast_bit_def ex_zone_in_def
      ex_server_def)

section \<open>Properties of the query handling\<close>

lemma collectAnswers_no_match:
  assumes "\<forall>q \<in> set qs. Records (Zone (config s)) q = []"
  shows "collectAnswers s qs ma ua = (ma, ua)"
  using assms
  by (induction qs arbitrary: ma ua) (simp_all add: handleQuestion_bit)

text \<open>
  C3. A query whose opcode is not zero, or whose response code is not zero, or whose
  truncated flag is set makes handleQuery return an error with the trace unchanged: no
  response is written for any of its questions. The result does not depend on the
  server or on the external collaborators at all, so the Zone is not consulted.
\<close>

theorem handleQuery_rejects_invalid:
  assumes "Opcode query \<noteq> 0 \<or> Rcode query \<noteq> 0 \<or> Truncated query"
  shows "(\<exists>err. handleQuery e s query from tr = (Returned (Some err), tr))
         \<and> (\<forall>e' s'. handleQuery e' s' query from tr = handleQuery e s query from tr)"
  using assms by (auto simp add: handleQuery_def OpcodeQuery_def)

theorem handleQuery_rejects_invalid_witness:
  "Truncated ((ex_query 5 [ex_question ''foo.local.'' 1])\<lparr>Truncated := True\<rparr>)
   \<and> (\<exists>err. handleQuery ex_env (ex_server ex_zone (Some 4) (Some 6))
               ((ex_query 5 [ex_question ''foo.local.'' 1])\<lparr>Truncated := True\<rparr>)
               (UDPAddr ex_from) []
             = (Returned (Some err), []))"
proof -
  let ?query = "(ex_query 5 [ex_question ''foo.local.'' 1])\<lparr>Truncated := True\<rparr>"
  have h: "Opcode ?query \<noteq> 0 \<or> Rcode ?query \<noteq> 0 \<or> Truncated ?query"
    by simp
  have t: "Truncated ?query"
    by simp
  show ?thesis
    using t handleQuery_rejects_invalid [OF h, of ex_env "ex_server ex_zone (Some 4) (Some 6)"
        "UDPAddr ex_from" "[]"]
    by blast
qed

text \<open>
  C10. A query that passes validation (opcode 0, response code 0, truncated flag clear)
  and whose questions all match no Zone record, in particular one with no question at
  all, makes handleQuery return success with the trace unchanged: nothing is written
  and no error is reported.
\<close>

theorem handleQuery_no_match_silent:
  assumes "Opcode query = 0" and "Rcode query = 0" and "\<not> Truncated query"
    and "\<forall>q \<in> set (Question query). Records (Zone (config s)) q = []"
  shows "handleQuery e s query from tr = (Returned None, tr)"
  using assms
  by (simp add: handleQuery_def OpcodeQuery_def collectAnswers_no_match resp_def
      handleQuery_unicast_def)

theorem handleQuery_no_match_silent_witness:
  "handleQuery ex_env (ex_server ex_zone (Some 4) (Some 6))
     (ex_query 5 [ex_question ''unknown.local.'' 1, ex_question ''other.local.'' 32769])
     (UDPAddr ex_from) [] = (Returned None, [])
   \<and> handleQuery ex_env (ex_server ex_zone (Some 4) (Some 6)) (ex_query 5 [])
     (UDPAddr ex_from) [] = (Returned None, [])"
  using handleQuery_no_match_silent [of
      "ex_query 5 [ex_question ''unknown.local.'' 1, ex_question ''other.local.'' 32769]"
      "ex_server ex_zone (Some 4) (Some 6)" ex_env "UDPAddr ex_from" "[]"]
    handleQuery_no_match_silent [of "ex_query 5 []"
      "ex_server ex_zone (Some 4) (Some 6)" ex_env "UDPAddr ex_from" "[]"]
  by (simp add: ex_query_def ex_question_def ex_server_def ex_zone_def)

section \<open>Properties of the response builder and of the trace\<close>


lemma resp_msg_fields:
  "Id_hdr (resp_msg i answer) = i" "Response (resp_msg i answer)"
  "Opcode (resp_msg i answer) = 0" "Authoritative (resp_msg i answer)"
  "\<not> Truncated (resp_msg i answer)" "\<not> RecursionDesired (resp_msg i answer)"
  "\<not> RecursionAvailable (resp_msg i answer)" "\<not> Zero (resp_msg i answer)"
  "\<not> AuthenticatedData (resp_msg i answer)" "\<not> CheckingDisabled (resp_msg i answer)"
  "Rcode (resp_msg i answer) = 0" "Compress (resp_msg i answer)"
  "Answer (resp_msg i answer) = answer"
  by (simp_all add: resp_msg_def OpcodeQuery_def)

lemma resp_eq:
  "resp query ua ma unicast =
     (if unicast then (if ua = [] then None else Some (resp_msg (Id_hdr query) ua))
      else (if ma = [] then None else Some (resp_msg 0 ma)))"
  by (simp add: resp_def Let_def)

lemma sendResponse_trace:
  "snd (sendResponse e s m from u tr) = tr
   \<or> (\<exists>c buf a. Pack e m = Inr buf \<and> snd (sendResponse e s m from u tr) = tr @ [EvWriteToUDP c buf a])"
  by (simp add: sendResponse_def Let_def split: sum.splits net_addr.splits option.splits)

lemma sendResponse_writes:
  assumes "Answer m \<noteq> []"
  shows "\<exists>new. snd (sendResponse e s m from u tr) = tr @ new
           \<and> (\<forall>c buf a. EvWriteToUDP c buf a \<in> set new
                \<longrightarrow> (\<exists>m'. Pack e m' = Inr buf \<and> Answer m' \<noteq> []))"
proof -
  from sendResponse_trace [of e s m "from" u tr]
  show ?thesis
  proof
    assume "snd (sendResponse e s m from u tr) = tr"
    then have "snd (sendResponse e s m from u tr) = tr @ []" by simp
    then show ?thesis by fastforce
  next
    assume "\<exists>c buf a. Pack e m = Inr buf \<and> snd (sendResponse e s m from u tr) = tr @ [EvWriteToUDP c buf a]"
    then obtain c buf a where p: "Pack e m = Inr buf"
      and t: "snd (sendResponse e s m from u tr) = tr @ [EvWriteToUDP c buf a]" by blast
    have "\<forall>c' buf' a'. EvWriteToUDP c' buf' a' \<in> set [EvWriteToUDP c buf a]
                \<longrightarrow> (\<exists>m'. Pack e m' = Inr buf' \<and> Answer m' \<noteq> [])"
      using p assms by auto
    with t show ?thesis by blast
  qed
qed

lemma handleQuery_unicast_writes:
  assumes "\<forall>m. uresp = Some m \<longrightarrow> Answer m \<noteq> []"
  shows "\<exists>new. snd (handleQuery_unicast e s uresp from tr) = tr @ new
           \<and> (\<forall>c buf a. EvWriteToUDP c buf a \<in> set new
                \<longrightarrow> (\<exists>m'. Pack e m' = Inr buf \<and> Answer m' \<noteq> []))"
proof (cases uresp)
  case None
  then have "snd (handleQuery_unicast e s uresp from tr) = tr @ []"
    by (simp add: handleQuery_unicast_def)
  then show ?thesis by fastforce
next
  case (Some m)
  with assms have a: "Answer m \<noteq> []" by simp
  have "snd (handleQuery_unicast e s uresp from tr) = snd (sendResponse e s m from True tr)"
    by (simp add: handleQuery_unicast_def Some split: prod.splits outcome.splits option.splits)
  with sendResponse_writes [OF a, of e s "from" True tr] show ?thesis by simp
qed

lemma handleQuery_writes:
  "\<exists>new. snd (handleQuery e s query from tr) = tr @ new
     \<and> (\<forall>c buf a. EvWriteToUDP c buf a \<in> set new
          \<longrightarrow> (\<exists>m'. Pack e m' = Inr buf \<and> Answer m' \<noteq> []))"
proof (cases "Opcode query \<noteq> OpcodeQuery \<or> Rcode query \<noteq> 0 \<or> Truncated query")
  case True
  then have "snd (handleQuery e s query from tr) = tr @ []"
    by (auto simp add: handleQuery_def)
  then show ?thesis by fastforce
next
  case False
  obtain ma ua where c: "collectAnswers s (Question query) [] [] = (ma, ua)"
    by (cases "collectAnswers s (Question query) [] []")
  let ?uresp = "resp query ua ma True"
  have u: "\<forall>m. ?uresp = Some m \<longrightarrow> Answer m \<noteq> []"
    by (simp add: resp_eq resp_msg_fields)
  show ?thesis
  proof (cases "ma = []")
    case True
    then have "handleQuery e s query from tr = handleQuery_unicast e s ?uresp from tr"
      using False by (simp add: handleQuery_def c resp_eq)
    with handleQuery_unicast_writes [OF u, of e s "from" tr] show ?thesis by simp
  next
    case ne: False
    let ?m = "resp_msg 0 ma"
    have a: "Answer ?m \<noteq> []" using ne by (simp add: resp_msg_fields)
    obtain r tr1 where sr: "sendResponse e s ?m from False tr = (r, tr1)"
      by (cases "sendResponse e s ?m from False tr")
    from sendResponse_writes [OF a, of e s "from" False tr] sr
    obtain new1 where n1: "tr1 = tr @ new1"
      and w1: "\<forall>c buf a. EvWriteToUDP c buf a \<in> set new1
                \<longrightarrow> (\<exists>m'. Pack e m' = Inr buf \<and> Answer m' \<noteq> [])"
      by auto
    show ?thesis
    proof (cases "r = Returned None")
      case True
      then have hq: "handleQuery e s query from tr = handleQuery_unicast e s ?uresp from tr1"
        using False ne by (simp add: handleQuery_def c resp_eq sr)
      from handleQuery_unicast_writes [OF u, of e s "from" tr1]
      obtain new2 where n2: "snd (handleQuery_unicast e s ?uresp from tr1) = tr1 @ new2"
        and w2: "\<forall>c buf a. EvWriteToUDP c buf a \<in> set new2
                \<longrightarrow> (\<exists>m'. Pack e m' = Inr buf \<and> Answer m' \<noteq> [])"
        by blast
      have "snd (handleQuery e s query from tr) = tr @ (new1 @ new2)"
        using hq n1 n2 by simp
      moreover have "\<forall>c buf a. EvWriteToUDP c buf a \<in> set (new1 @ new2)
                \<longrightarrow> (\<exists>m'. Pack e m' = Inr buf \<and> Answer m' \<noteq> [])"
      proof (intro allI impI)
        fix c buf a
        assume "EvWriteToUDP c buf a \<in> set (new1 @ new2)"
        then have "EvWriteToUDP c buf a \<in> set new1 \<or> EvWriteToUDP c buf a \<in> set new2"
          by simp
        then show "\<exists>m'. Pack e m' = Inr buf \<and> Answer m' \<noteq> []"
          using w1 w2 by blast
      qed
      ultimately show ?thesis by blast
    next
      case nr: False
      then have "snd (handleQuery e s query from tr) = tr1"
        using False ne
        by (simp add: handleQuery_def c resp_eq sr split: outcome.splits option.splits)
      with n1 w1 show ?thesis by blast
    qed
  qed
qed

lemma announceOnce_empty:
  "Announcement (Zone (config s)) = [] \<Longrightarrow> announceOnce e s tr = (Returned None, tr)"
  by (simp add: announceOnce_def)

lemma announceOnce_writes:
  "\<exists>new. snd (announceOnce e s tr) = tr @ new
     \<and> (\<forall>c buf a. EvWriteToUDP c buf a \<in> set new
          \<longrightarrow> (\<exists>m'. Pack e m' = Inr buf \<and> Answer m' \<noteq> []))"
proof (cases "Announcement (Zone (config s)) = []")
  case True
  then have "snd (announceOnce e s tr) = tr @ []"
    by (simp add: announceOnce_empty)
  then show ?thesis by fastforce
next
  case ne: False
  let ?m = "announceOnce_msg (Announcement (Zone (config s)))"
  have a: "Answer ?m \<noteq> []" using ne by (simp add: announceOnce_msg_def)
  show ?thesis
  proof (cases "Pack e ?m")
    case (Inl err)
    then have "snd (announceOnce e s tr) = tr @ []"
      using ne by (simp add: announceOnce_def)
    then show ?thesis by fastforce
  next
    case (Inr buf)
    have ok: "\<exists>m'. Pack e m' = Inr buf \<and> Answer m' \<noteq> []"
      using Inr a by blast
    have "\<exists>new. snd (announceOnce e s tr) = tr @ new
            \<and> (\<forall>ev \<in> set new. \<exists>c a. ev = EvWriteToUDP c buf a)"
      using ne Inr
      by (auto simp add: announceOnce_def split: option.splits)
    then obtain new where n: "snd (announceOnce e s tr) = tr @ new"
      and w: "\<forall>ev \<in> set new. \<exists>c a. ev = EvWriteToUDP c buf a" by blast
    have "\<forall>c buf' a. EvWriteToUDP c buf' a \<in> set new
          \<longrightarrow> (\<exists>m'. Pack e m' = Inr buf' \<and> Answer m' \<noteq> [])"
      using w ok by fastforce
    with n show ?thesis by blast
  qed
qed

text \<open>
  C4. A response is written only when its answer set is not empty. The response builder
  returns nil exactly when the answer sequence it selects is empty; every buffer that
  handleQuery or announceOnce hands to a socket is the encoding of a message whose
  answer list is not empty; and announceOnce with an empty announcement set returns
  success and writes nothing.
\<close>

theorem no_empty_answer_response:
  "(resp query ua ma unicast = None \<longleftrightarrow> (if unicast then ua else ma) = [])
   \<and> (\<exists>new. snd (handleQuery e s query from tr) = tr @ new
        \<and> (\<forall>c buf a. EvWriteToUDP c buf a \<in> set new
             \<longrightarrow> (\<exists>m. Pack e m = Inr buf \<and> Answer m \<noteq> [])))
   \<and> (\<exists>new. snd (announceOnce e s tr) = tr @ new
        \<and> (\<forall>c buf a. EvWriteToUDP c buf a \<in> set new
             \<longrightarrow> (\<exists>m. Pack e m = Inr buf \<and> Answer m \<noteq> [])))
   \<and> (Announcement (Zone (config s)) = [] \<longrightarrow> announceOnce e s tr = (Returned None, tr))"
proof -
  have "resp query ua ma unicast = None \<longleftrightarrow> (if unicast then ua else ma) = []"
    by (simp add: resp_eq)
  then show ?thesis
    using handleQuery_writes [of e s query "from" tr] announceOnce_writes [of e s tr]
      announceOnce_empty [of s e tr]
    by blast
qed


theorem no_empty_answer_response_witness:
  "Announcement (Zone (config (ex_server ex_zone_empty (Some 4) (Some 6)))) = []
   \<and> announceOnce ex_env (ex_server ex_zone_empty (Some 4) (Some 6)) [] = (Returned None, [])
   \<and> resp (ex_query 5 []) [] [7] True = None"
proof -
  let ?s = "ex_server ex_zone_empty (Some 4) (Some 6)"
  have h: "Announcement (Zone (config ?s)) = []"
    by (simp add: ex_server_def ex_zone_empty_def)
  have "(resp (ex_query 5 []) [] [7] True = None) = ((if True then [] else [7::nat]) = [])"
    and "Announcement (Zone (config ?s)) = [] \<longrightarrow> announceOnce ex_env ?s [] = (Returned None, [])"
    using no_empty_answer_response [of "ex_query 5 []" "[]" "[7]" True ex_env ?s "UDPAddr ex_from" "[]"]
    by blast+
  with h show ?thesis by simp
qed

lemma collectAnswers_app:
  "collectAnswers s (xs @ ys) ma ua =
     (case collectAnswers s xs ma ua of (ma', ua') \<Rightarrow> collectAnswers s ys ma' ua')"
  by (induction xs arbitrary: ma ua) (simp_all split: prod.splits)

lemma collectAnswers_one_match:
  assumes "\<forall>q' \<in> set pre \<union> set post. Records (Zone (config s)) q' = []"
  shows "collectAnswers s (pre @ q # post) [] [] = handleQuestion s q"
proof -
  have p: "\<forall>q' \<in> set pre. Records (Zone (config s)) q' = []"
    and q: "\<forall>q' \<in> set post. Records (Zone (config s)) q' = []"
    using assms by simp_all
  show ?thesis
    by (simp add: collectAnswers_app collectAnswers_no_match [OF p] collectAnswers_no_match [OF q]
        split: prod.splits)
qed

lemma sendResponse_sent:
  assumes "Pack e m = Inr buf"
    and "(if To4 (IP addr) \<noteq> None then ipv4List s else ipv6List s) = Some c"
  shows "snd (sendResponse e s m (UDPAddr addr) unicast tr) =
     tr @ [EvWriteToUDP c buf
             (if unicast then addr else if To4 (IP addr) \<noteq> None then ipv4Addr else ipv6Addr)]"
  using assms
  by (simp add: sendResponse_def Let_def split: if_splits)

lemma snd_wrap_outcome:
  "snd (case x of
          (Returned (Some err), tr') \<Rightarrow> (Returned (Some (f err)), tr')
        | (Returned None, tr') \<Rightarrow> (Returned None, tr')
        | (Panicked p, tr') \<Rightarrow> (Panicked p, tr')) = snd x"
  by (simp split: prod.splits outcome.splits option.splits)

text \<open>
  C2. For a query with opcode 0, response code 0 and the truncated flag clear, in which
  exactly one question is matched by the Zone (it may be the only question, or stand
  among questions that match nothing), the response builder yields exactly one message
  (the other call returns nil) and handleQuery is one call of sendResponse on it. Its
  Response bit is set, its opcode is 0, Authoritative is set, Truncated,
  RecursionDesired, RecursionAvailable and the reserved bits are clear, the response
  code is 0, name compression is on, and its id is 0 when it is sent multicast and the
  query's id when it is sent unicast. On the sockets, at most one packet is written, the
  encoding of that message; exactly one is, to the multicast group of the sender's
  address family or to the sender itself, when the sender's address is a UDP address,
  the socket of its family is present and the encoding succeeds.
\<close>

theorem handleQuery_one_match:
  assumes "Opcode query = 0" and "Rcode query = 0" and "\<not> Truncated query"
    and "Question query = pre @ q # post"
    and "\<forall>q' \<in> set pre \<union> set post. Records (Zone (config s)) q' = []"
    and "Records (Zone (config s)) q \<noteq> []"
  shows "(let unicast = bit (Qclass q) 15;
              m = resp_msg (if unicast then Id_hdr query else 0) (Records (Zone (config s)) q)
          in Id_hdr m = (if unicast then Id_hdr query else 0)
             \<and> Response m \<and> Opcode m = 0 \<and> Authoritative m
             \<and> \<not> Truncated m \<and> \<not> RecursionDesired m \<and> \<not> RecursionAvailable m
             \<and> \<not> Zero m \<and> \<not> AuthenticatedData m \<and> \<not> CheckingDisabled m \<and> Rcode m = 0
             \<and> Compress m \<and> Answer m = Records (Zone (config s)) q
             \<and> resp query (snd (handleQuestion s q)) (fst (handleQuestion s q)) unicast = Some m
             \<and> resp query (snd (handleQuestion s q)) (fst (handleQuestion s q)) (\<not> unicast) = None
             \<and> handleQuery e s query from tr =
                 (case sendResponse e s m from unicast tr of
                    (Returned (Some err), tr') \<Rightarrow>
                      (Returned (Some ((if unicast then ErrSendUnicast else ErrSendMulticast) err)), tr')
                  | (Returned None, tr') \<Rightarrow> (Returned None, tr')
                  | (Panicked p, tr') \<Rightarrow> (Panicked p, tr'))
             \<and> (snd (handleQuery e s query from tr) = tr
                  \<or> (\<exists>c buf a. Pack e m = Inr buf
                        \<and> snd (handleQuery e s query from tr) = tr @ [EvWriteToUDP c buf a]))
             \<and> (\<forall>addr c buf.
                   from = UDPAddr addr
                   \<and> (if To4 (IP addr) \<noteq> None then ipv4List s else ipv6List s) = Some c
                   \<and> Pack e m = Inr buf
                   \<longrightarrow> snd (handleQuery e s query from tr) =
                        tr @ [EvWriteToUDP c buf
                                (if unicast then addr
                                 else if To4 (IP addr) \<noteq> None then ipv4Addr else ipv6Addr)]))"
proof -
  define unicast where "unicast = bit (Qclass q) 15"
  define m where "m = resp_msg (if unicast then Id_hdr query else 0) (Records (Zone (config s)) q)"
  obtain ma ua where c: "collectAnswers s (Question query) [] [] = (ma, ua)"
    and hn: "handleQuestion s q = (ma, ua)"
    using collectAnswers_one_match [OF assms(5), of q] assms(4)
    by (cases "handleQuestion s q") simp
  have r1': "resp query ua ma unicast = Some m" and r2': "resp query ua ma (\<not> unicast) = None"
    using assms(6) hn by (auto simp add: unicast_def m_def handleQuestion_bit resp_eq split: if_splits)
  have r1: "resp query (snd (handleQuestion s q)) (fst (handleQuestion s q)) unicast = Some m"
    and r2: "resp query (snd (handleQuestion s q)) (fst (handleQuestion s q)) (\<not> unicast) = None"
    using r1' r2' by (simp_all add: hn)
  have hq: "handleQuery e s query from tr =
                 (case sendResponse e s m from unicast tr of
                    (Returned (Some err), tr') \<Rightarrow>
                      (Returned (Some ((if unicast then ErrSendUnicast else ErrSendMulticast) err)), tr')
                  | (Returned None, tr') \<Rightarrow> (Returned None, tr')
                  | (Panicked p, tr') \<Rightarrow> (Panicked p, tr'))"
  proof (cases unicast)
    case True
    then show ?thesis
      using assms(1-3) r1' r2'
      by (simp add: handleQuery_def OpcodeQuery_def c handleQuery_unicast_def)
  next
    case False
    then show ?thesis
      using assms(1-3) r1' r2'
      by (simp add: handleQuery_def OpcodeQuery_def c handleQuery_unicast_def
          split: prod.splits outcome.splits option.splits)
  qed
  have tr_eq: "snd (handleQuery e s query from tr) = snd (sendResponse e s m from unicast tr)"
    unfolding hq by (rule snd_wrap_outcome)
  have w1: "snd (handleQuery e s query from tr) = tr
            \<or> (\<exists>c buf a. Pack e m = Inr buf
                  \<and> snd (handleQuery e s query from tr) = tr @ [EvWriteToUDP c buf a])"
    unfolding tr_eq by (rule sendResponse_trace)
  have w2: "\<forall>addr c buf.
              from = UDPAddr addr
              \<and> (if To4 (IP addr) \<noteq> None then ipv4List s else ipv6List s) = Some c
              \<and> Pack e m = Inr buf
              \<longrightarrow> snd (handleQuery e s query from tr) =
                   tr @ [EvWriteToUDP c buf
                           (if unicast then addr
                            else if To4 (IP addr) \<noteq> None then ipv4Addr else ipv6Addr)]"
    unfolding tr_eq using sendResponse_sent by blast
  have f: "Id_hdr m = (if unicast then Id_hdr query else 0)
             \<and> Response m \<and> Opcode m = 0 \<and> Authoritative m
             \<and> \<not> Truncated m \<and> \<not> RecursionDesired m \<and> \<not> RecursionAvailable m
             \<and> \<not> Zero m \<and> \<not> AuthenticatedData m \<and> \<not> CheckingDisabled m \<and> Rcode m = 0
             \<and> Compress m \<and> Answer m = Records (Zone (config s)) q"
    by (simp add: m_def resp_msg_fields)
  show ?thesis
    unfolding Let_def unicast_def [symmetric] m_def [symmetric]
    using f r1 r2 hq w1 w2 by blast
qed

theorem handleQuery_one_match_witness:
  "handleQuery ex_env (ex_server ex_zone (Some 4) (Some 6))
     (ex_query 5 [ex_question ''foo.local.'' 1]) (UDPAddr ex_from) []
     = (Returned None, [EvWriteToUDP 4 [0, 7] ipv4Addr])
   \<and> handleQuery ex_env (ex_server ex_zone (Some 4) (Some 6))
     (ex_query 5 [ex_question ''unknown.local.'' 1, ex_question ''foo.local.'' 32769])
     (UDPAddr ex_from) []
     = (Returned None, [EvWriteToUDP 4 [5, 7] ex_from])"
proof -
  let ?s = "ex_server ex_zone (Some 4) (Some 6)"
  let ?qm = "ex_question ''foo.local.'' 1"
  let ?qu = "ex_question ''foo.local.'' 32769"
  let ?qn = "ex_question ''unknown.local.'' 1"
  have v: "Opcode (ex_query 5 qs) = 0" "Rcode (ex_query 5 qs) = 0" "\<not> Truncated (ex_query 5 qs)"
    "Question (ex_query 5 qs) = qs" "Id_hdr (ex_query 5 qs) = 5" for qs
    by (simp_all add: ex_query_def)
  have rm: "Records (Zone (config ?s)) ?qm = [7]" and ru: "Records (Zone (config ?s)) ?qu = [7]"
    by (simp_all add: ex_server_def ex_zone_def ex_question_def)
  have nm: "Records (Zone (config ?s)) ?qm \<noteq> []" and nu: "Records (Zone (config ?s)) ?qu \<noteq> []"
    by (simp_all add: rm ru)
  have em: "\<forall>q' \<in> set [] \<union> set []. Records (Zone (config ?s)) q' = []"
    by simp
  have eu: "\<forall>q' \<in> set [?qn] \<union> set []. Records (Zone (config ?s)) q' = []"
    by (simp add: ex_server_def ex_zone_def ex_question_def)
  have bm: "\<not> bit (Qclass ?qm) 15" and bu: "bit (Qclass ?qu) 15"
    by (simp_all add: ex_question_def)
  have sm: "sendResponse ex_env ?s (resp_msg 0 [7]) (UDPAddr ex_from) False []
              = (Returned None, [EvWriteToUDP 4 [0, 7] ipv4Addr])"
    by (simp add: sendResponse_def ex_env_def ex_pack_def resp_msg_fields To4_ex_from ex_server_def)
  have su: "sendResponse ex_env ?s (resp_msg 5 [7]) (UDPAddr ex_from) True []
              = (Returned None, [EvWriteToUDP 4 [5, 7] ex_from])"
    by (simp add: sendResponse_def ex_env_def ex_pack_def resp_msg_fields To4_ex_from ex_server_def)
  have "handleQuery ex_env ?s (ex_query 5 ([] @ ?qm # [])) (UDPAddr ex_from) []
          = (Returned None, [EvWriteToUDP 4 [0, 7] ipv4Addr])"
    using handleQuery_one_match [OF v(1) v(2) v(3) v(4) em nm, of ex_env "UDPAddr ex_from" "[]"]
    by (simp add: Let_def bm rm sm)
  moreover have "handleQuery ex_env ?s (ex_query 5 ([?qn] @ ?qu # [])) (UDPAddr ex_from) []
          = (Returned None, [EvWriteToUDP 4 [5, 7] ex_from])"
    using handleQuery_one_match [OF v(1) v(2) v(3) v(4) eu nu, of ex_env "UDPAddr ex_from" "[]"]
    by (simp add: Let_def bu ru su v(5))
  ultimately show ?thesis by simp
qed

section \<open>Properties of the sending order\<close>


lemma sendResponse_ex_multicast_fails:
  "sendResponse ex_env_multicast_fails (ex_server ex_zone (Some 4) (Some 6)) (resp_msg 0 [7])
     (UDPAddr ex_from) False []
   = (Returned (Some (ErrExternal ''network is unreachable'')), [EvWriteToUDP 4 [0, 7] ipv4Addr])"
  by (simp add: sendResponse_def ex_env_multicast_fails_def ex_pack_def resp_msg_fields
      To4_ex_from ex_server_def)

lemma collectAnswers_ex_two:
  "collectAnswers (ex_server ex_zone (Some 4) (Some 6))
     [ex_question ''foo.local.'' 1, ex_question ''bar.local.'' 32769] [] [] = ([7], [8])"
  by (simp add: handleQuestion_bit ex_server_def ex_zone_def ex_question_def)

text \<open>
  C6, as the code has it. For a query with a non-empty multicast and a non-empty unicast
  answer set, the multicast response is sent first. When that send fails, handleQuery
  returns its error at once, wrapped as the multicast send error, and the unicast
  response is not attempted. When it succeeds, the unicast response is sent, and a
  failure of that send is returned wrapped as the unicast send error.
\<close>

theorem handleQuery_send_order:
  assumes "Opcode query = 0" and "Rcode query = 0" and "\<not> Truncated query"
    and "collectAnswers s (Question query) [] [] = (multicastAnswer, unicastAnswer)"
    and "multicastAnswer \<noteq> []" and "unicastAnswer \<noteq> []"
  shows "handleQuery e s query from tr =
     (case sendResponse e s (resp_msg 0 multicastAnswer) from False tr of
        (Returned (Some err), tr') \<Rightarrow> (Returned (Some (ErrSendMulticast err)), tr')
      | (Panicked p, tr') \<Rightarrow> (Panicked p, tr')
      | (Returned None, tr') \<Rightarrow>
          (case sendResponse e s (resp_msg (Id_hdr query) unicastAnswer) from True tr' of
             (Returned (Some err), tr'') \<Rightarrow> (Returned (Some (ErrSendUnicast err)), tr'')
           | (Returned None, tr'') \<Rightarrow> (Returned None, tr'')
           | (Panicked p, tr'') \<Rightarrow> (Panicked p, tr'')))"
  using assms
  by (simp add: handleQuery_def OpcodeQuery_def resp_eq handleQuery_unicast_def
      split: prod.splits outcome.splits option.splits)

theorem handleQuery_send_order_witness:
  "handleQuery ex_env (ex_server ex_zone (Some 4) (Some 6))
     (ex_query 5 [ex_question ''foo.local.'' 1, ex_question ''bar.local.'' 32769])
     (UDPAddr ex_from) []
   = (Returned None, [EvWriteToUDP 4 [0, 7] ipv4Addr, EvWriteToUDP 4 [5, 8] ex_from])"
proof -
  let ?s = "ex_server ex_zone (Some 4) (Some 6)"
  let ?qs = "[ex_question ''foo.local.'' 1, ex_question ''bar.local.'' 32769]"
  have v: "Opcode (ex_query 5 ?qs) = 0" "Rcode (ex_query 5 ?qs) = 0" "\<not> Truncated (ex_query 5 ?qs)"
    and i: "Id_hdr (ex_query 5 ?qs) = 5"
    by (simp_all add: ex_query_def)
  have c: "collectAnswers ?s (Question (ex_query 5 ?qs)) [] [] = ([7], [8])"
    using collectAnswers_ex_two by (simp add: ex_query_def)
  have n: "[7::nat] \<noteq> []" "[8::nat] \<noteq> []"
    by simp_all
  have sm: "sendResponse ex_env ?s (resp_msg 0 [7]) (UDPAddr ex_from) False []
              = (Returned None, [EvWriteToUDP 4 [0, 7] ipv4Addr])"
    by (simp add: sendResponse_def ex_env_def ex_pack_def resp_msg_fields To4_ex_from ex_server_def)
  have su: "sendResponse ex_env ?s (resp_msg 5 [8]) (UDPAddr ex_from) True
              [EvWriteToUDP 4 [0, 7] ipv4Addr]
              = (Returned None, [EvWriteToUDP 4 [0, 7] ipv4Addr, EvWriteToUDP 4 [5, 8] ex_from])"
    by (simp add: sendResponse_def ex_env_def ex_pack_def resp_msg_fields To4_ex_from ex_server_def)
  show ?thesis
    using handleQuery_send_order [OF v c n, of ex_env "UDPAddr ex_from" "[]"]
    by (simp add: i sm su)
qed

text \<open>
  C6, as the spec words it, fails: with both answer sets non-empty and a socket layer on
  which only the write to the multicast group fails, handleQuery returns the multicast
  error after one write attempt, and no write to the sender's address is attempted,
  though that write would have succeeded.
\<close>

theorem handleQuery_independent_sends_counterexample:
  "collectAnswers (ex_server ex_zone (Some 4) (Some 6))
     (Question (ex_query 5 [ex_question ''foo.local.'' 1, ex_question ''bar.local.'' 32769])) [] []
     = ([7], [8])
   \<and> handleQuery ex_env_multicast_fails (ex_server ex_zone (Some 4) (Some 6))
       (ex_query 5 [ex_question ''foo.local.'' 1, ex_question ''bar.local.'' 32769])
       (UDPAddr ex_from) []
     = (Returned (Some (ErrSendMulticast (ErrExternal ''network is unreachable''))),
        [EvWriteToUDP 4 [0, 7] ipv4Addr])
   \<and> WriteToUDP ex_env_multicast_fails [EvWriteToUDP 4 [0, 7] ipv4Addr] 4 [5, 8] ex_from = None
   \<and> \<not> (\<exists>c buf. EvWriteToUDP c buf ex_from \<in> set (snd
         (handleQuery ex_env_multicast_fails (ex_server ex_zone (Some 4) (Some 6))
           (ex_query 5 [ex_question ''foo.local.'' 1, ex_question ''bar.local.'' 32769])
           (UDPAddr ex_from) [])))"
proof -
  let ?s = "ex_server ex_zone (Some 4) (Some 6)"
  let ?query = "ex_query 5 [ex_question ''foo.local.'' 1, ex_question ''bar.local.'' 32769]"
  have c: "collectAnswers ?s (Question ?query) [] [] = ([7], [8])"
    using collectAnswers_ex_two by (simp add: ex_query_def)
  have h: "handleQuery ex_env_multicast_fails ?s ?query (UDPAddr ex_from) []
     = (Returned (Some (ErrSendMulticast (ErrExternal ''network is unreachable''))),
        [EvWriteToUDP 4 [0, 7] ipv4Addr])"
    by (simp add: handleQuery_def c resp_eq sendResponse_ex_multicast_fails)
       (simp add: ex_query_def OpcodeQuery_def)
  have w: "WriteToUDP ex_env_multicast_fails [EvWriteToUDP 4 [0, 7] ipv4Addr] 4 [5, 8] ex_from = None"
    by (simp add: ex_env_multicast_fails_def ex_from_def ipv4Addr_def ipv6Addr_def)
  have d: "ipv4Addr \<noteq> ex_from"
    by (simp add: ex_from_def ipv4Addr_def)
  show ?thesis
    using d by (simp add: c h w)
qed

section \<open>Properties of the announcement step\<close>


lemma announceOnce_msg_fields:
  "Id_hdr (announceOnce_msg records) = 0" "Response (announceOnce_msg records)"
  "Opcode (announceOnce_msg records) = 0" "Authoritative (announceOnce_msg records)"
  "\<not> Truncated (announceOnce_msg records)" "Rcode (announceOnce_msg records) = 0"
  "Compress (announceOnce_msg records)" "Answer (announceOnce_msg records) = records"
  by (simp_all add: announceOnce_msg_def OpcodeQuery_def)

text \<open>
  C8, as the code has it. With both sockets present, a non-empty announcement set and a
  successful encoding, announceOnce writes the encoded announcement to the v4 socket
  first, and to the v6 socket as well when the v4 write reported no error; an error of
  the v4 write is returned at once and the v6 socket is not written.
\<close>

theorem announceOnce_both_sockets:
  assumes "ipv4List s = Some c4" and "ipv6List s = Some c6"
    and "Announcement (Zone (config s)) \<noteq> []"
    and "Pack e (announceOnce_msg (Announcement (Zone (config s)))) = Inr buf"
  shows "announceOnce e s tr =
     (case WriteToUDP e tr c4 buf ipv4Addr of
        Some err \<Rightarrow> (Returned (Some err), tr @ [EvWriteToUDP c4 buf ipv4Addr])
      | None \<Rightarrow>
          (Returned (WriteToUDP e (tr @ [EvWriteToUDP c4 buf ipv4Addr]) c6 buf ipv6Addr),
           tr @ [EvWriteToUDP c4 buf ipv4Addr, EvWriteToUDP c6 buf ipv6Addr]))"
  using assms
  by (simp add: announceOnce_def split: option.splits)

theorem announceOnce_both_sockets_witness:
  "announceOnce ex_env (ex_server ex_zone (Some 4) (Some 6)) []
   = (Returned None, [EvWriteToUDP 4 [0, 7, 8] ipv4Addr, EvWriteToUDP 6 [0, 7, 8] ipv6Addr])"
proof -
  let ?s = "ex_server ex_zone (Some 4) (Some 6)"
  have a: "ipv4List ?s = Some 4" "ipv6List ?s = Some 6" "Announcement (Zone (config ?s)) \<noteq> []"
    by (simp_all add: ex_server_def ex_zone_def)
  have p: "Pack ex_env (announceOnce_msg (Announcement (Zone (config ?s)))) = Inr [0, 7, 8]"
    by (simp add: ex_env_def ex_pack_def announceOnce_msg_def ex_server_def ex_zone_def)
  show ?thesis
    using announceOnce_both_sockets [OF a p, of "[]"]
    by (simp add: ex_env_def)
qed

text \<open>
  C8, as the spec words it, fails: with both sockets present and a v4 write that fails,
  announceOnce returns the error after the write attempt on the v4 socket and nothing is
  written to the v6 socket.
\<close>

theorem announceOnce_every_socket_counterexample:
  "ipv4List (ex_server ex_zone (Some 4) (Some 6)) = Some 4
   \<and> ipv6List (ex_server ex_zone (Some 4) (Some 6)) = Some 6
   \<and> announceOnce ex_env_v4_fails (ex_server ex_zone (Some 4) (Some 6)) []
     = (Returned (Some (ErrExternal ''network is unreachable'')),
        [EvWriteToUDP 4 [0, 7, 8] ipv4Addr])
   \<and> \<not> (\<exists>buf a. EvWriteToUDP 6 buf a \<in> set (snd
         (announceOnce ex_env_v4_fails (ex_server ex_zone (Some 4) (Some 6)) [])))"
proof -
  let ?s = "ex_server ex_zone (Some 4) (Some 6)"
  have h: "announceOnce ex_env_v4_fails ?s []
     = (Returned (Some (ErrExternal ''network is unreachable'')),
        [EvWriteToUDP 4 [0, 7, 8] ipv4Addr])"
    by (simp add: announceOnce_def ex_env_v4_fails_def ex_pack_def announceOnce_msg_def
        ex_server_def ex_zone_def)
  show ?thesis
    by (simp add: h) (simp add: ex_server_def)
qed

section \<open>Properties of the lifecycle\<close>

lemma NewServer_live:
  assumes "NewServer cfg l4 l6 loop4 loop6 = Inr s"
  shows "\<not> shutdown s \<and> shutdownCh s = ChanOpen \<and> ipv4List s = l4 \<and> ipv6List s = l6
         \<and> (l4 \<noteq> None \<or> l6 \<noteq> None)"
  using assms
  by (auto simp add: NewServer_def split: option.splits if_splits)

lemma Shutdown_live:
  assumes "\<not> shutdown s" and "shutdownCh s = ChanOpen"
  shows "Shutdown s tr =
     (Returned None, s\<lparr>shutdown := True, shutdownCh := ChanClosed\<rparr>,
      tr @ (case ipv4List s of None \<Rightarrow> [] | Some c4 \<Rightarrow> [EvClose c4])
         @ (case ipv6List s of None \<Rightarrow> [] | Some c6 \<Rightarrow> [EvClose c6]))"
  using assms
  by (simp add: Shutdown_def Let_def split: option.splits)

lemma Shutdown_done:
  assumes "shutdown s"
  shows "Shutdown s tr = (Returned None, s, tr)"
  using assms by (simp add: Shutdown_def)

lemma Shutdown_times_done:
  assumes "shutdown s"
  shows "Shutdown_times n s tr = (replicate n (Returned None), s, tr)"
  using assms
  by (induction n) (simp_all add: Shutdown_done)

lemma Shutdown_times_live:
  assumes "\<not> shutdown s" and "shutdownCh s = ChanOpen"
  shows "Shutdown_times (Suc n) s tr =
     (replicate (Suc n) (Returned None), s\<lparr>shutdown := True, shutdownCh := ChanClosed\<rparr>,
      tr @ (case ipv4List s of None \<Rightarrow> [] | Some c4 \<Rightarrow> [EvClose c4])
         @ (case ipv6List s of None \<Rightarrow> [] | Some c6 \<Rightarrow> [EvClose c6]))"
  by (simp add: Shutdown_live [OF assms] Shutdown_times_done)

text \<open>
  The states left out below: with the flag clear and the channel nil or already closed,
  as in a server value that NewServer did not build, \<open>close\<close> panics.
\<close>

lemma Shutdown_without_channel:
  assumes "\<not> shutdown s" and "shutdownCh s \<noteq> ChanOpen"
  shows "\<exists>p. fst (Shutdown s tr) = Panicked p"
  using assms by (cases "shutdownCh s") (simp_all add: Shutdown_def)

text \<open>
  C9. From every state that NewServer builds, and from every state that Shutdown leaves
  (the shutdown flag is set, or the channel is open), any number of Shutdown calls in a
  row all return success, none panics, the server is shut down after the first call and
  stays as the first call left it, and the sockets are closed by the first call only:
  over all the calls each present socket is closed once, the v4 socket before the v6
  one. When the two sockets are different handles no handle is closed twice.
\<close>

theorem Shutdown_idempotent:
  assumes "shutdown s \<or> shutdownCh s = ChanOpen"
  shows "Shutdown_times n s tr =
     (replicate n (Returned None),
      (if n = 0 then s else fst (snd (Shutdown s tr))),
      (if n = 0 then tr else snd (snd (Shutdown s tr))))
   \<and> (0 < n \<longrightarrow> shutdown (fst (snd (Shutdown_times n s tr))))
   \<and> snd (snd (Shutdown_times n s tr)) =
       tr @ (if n = 0 \<or> shutdown s then []
             else (case ipv4List s of None \<Rightarrow> [] | Some c4 \<Rightarrow> [EvClose c4])
                  @ (case ipv6List s of None \<Rightarrow> [] | Some c6 \<Rightarrow> [EvClose c6]))
   \<and> (ipv4List s = None \<or> ipv6List s \<noteq> ipv4List s
        \<longrightarrow> (\<forall>c. count_list (drop (length tr) (snd (snd (Shutdown_times n s tr)))) (EvClose c) \<le> 1))"
proof (cases n)
  case 0
  then show ?thesis by simp
next
  case (Suc k)
  show ?thesis
  proof (cases "shutdown s")
    case True
    then show ?thesis
      by (simp add: Shutdown_times_done Shutdown_done Suc)
  next
    case False
    with assms have o: "shutdownCh s = ChanOpen" by simp
    show ?thesis
      unfolding Suc Shutdown_times_live [OF False o] Shutdown_live [OF False o]
      using False by (auto split: option.splits)
  qed
qed

theorem Shutdown_idempotent_witness:
  "NewServer \<lparr>Zone = ex_zone, Iface = None, DisableMulticastLoopback = False\<rparr>
     (Some 4) (Some 6) None None = Inr (ex_server ex_zone (Some 4) (Some 6))
   \<and> Shutdown_times 3 (ex_server ex_zone (Some 4) (Some 6)) []
     = ([Returned None, Returned None, Returned None],
        (ex_server ex_zone (Some 4) (Some 6))\<lparr>shutdown := True, shutdownCh := ChanClosed\<rparr>,
        [EvClose 4, EvClose 6])"
proof -
  let ?s = "ex_server ex_zone (Some 4) (Some 6)"
  have n: "NewServer \<lparr>Zone = ex_zone, Iface = None, DisableMulticastLoopback = False\<rparr>
     (Some 4) (Some 6) None None = Inr ?s"
    by (simp add: NewServer_def ex_server_def)
  have h: "shutdown ?s \<or> shutdownCh ?s = ChanOpen"
    by (simp add: ex_server_def)
  have l: "\<not> shutdown ?s" "shutdownCh ?s = ChanOpen" "ipv4List ?s = Some 4" "ipv6List ?s = Some 6"
    by (simp_all add: ex_server_def)
  have "Shutdown_times 3 ?s [] =
     (replicate 3 (Returned None),
      (if (3::nat) = 0 then ?s else fst (snd (Shutdown ?s []))),
      (if (3::nat) = 0 then [] else snd (snd (Shutdown ?s []))))"
    using Shutdown_idempotent [OF h, of 3 "[]"] by blast
  then have "Shutdown_times 3 ?s [] =
     ([Returned None, Returned None, Returned None],
      ?s\<lparr>shutdown := True, shutdownCh := ChanClosed\<rparr>, [EvClose 4, EvClose 6])"
    by (simp add: Shutdown_live [OF l(1) l(2)] l(3) l(4) numeral_3_eq_3)
  with n show ?thesis by simp
qed

end
